theory Spec2Isabelle
  imports Complex_Main "HOL-Library.Sublist"
begin

section \<open>The upload form of \<open>src/ppt/src/PptUploadRow.tsx\<close>\<close>

text \<open>
  The component \<open>PptUploadRow\<close> holds eight React state cells, two asynchronous handlers
  (\<open>handleFileChange\<close>, \<open>handleStart\<close>), two inline \<open>onChange\<close> handlers and one render
  function. The embedding follows the way React runs it:

  \<^item> the eight cells are one record \<open>form_state\<close>;
  \<^item> a handler reads the cells of the render it was created in (its closure) and calls
    setters, \<open>alert\<close> and \<open>fetch\<close>; it is modelled as a function from that closure state to
    the list of \<open>action\<close>s it performs, in program order. \<open>exec\<close> applies the setters of
    such a list to a state, one cell per setter;
  \<^item> an \<open>async\<close> handler runs synchronously up to its first \<open>await\<close> and continues when
    the awaited promise settles. Each asynchronous handler is therefore two functions,
    \<open>_sync\<close> (up to the \<open>await\<close>) and \<open>_resume\<close> (from the settled promise on), and a third
    that runs both without anything in between;
  \<^item> what the awaited library calls answer (\<open>file.arrayBuffer\<close> with \<open>JSZip.loadAsync\<close>,
    \<open>fetch\<close> with \<open>response.json\<close>) is a parameter;
  \<^item> a promise that rejects and a \<open>throw\<close> are values (\<open>None\<close>, \<open>Inl\<close>), and each \<open>catch\<close>
    is a branch.

  Strings are \<open>string\<close>, a list of 8-bit characters (UTF-8 bytes).
\<close>

subsection \<open>Strings\<close>

text \<open>
  \<open>String.prototype.toLowerCase\<close>, on the ASCII letters. The source uses the lowered name
  only for two suffix tests against the ASCII literals \<open>.ppt\<close> and \<open>.pptx\<close>; bytes outside
  ASCII are left as they are and cannot take part in such a suffix.
\<close>

definition lower_char :: "char \<Rightarrow> char" where
  "lower_char c =
     (let n = (of_char c :: nat) in if 65 \<le> n \<and> n \<le> 90 then char_of (n + 32) else c)"

definition toLowerCase :: "string \<Rightarrow> string" where
  "toLowerCase s = map lower_char s"

definition endsWith :: "string \<Rightarrow> string \<Rightarrow> bool" where
  "endsWith s search = suffix search s"

definition startsWith :: "string \<Rightarrow> string \<Rightarrow> bool" where
  "startsWith s search = prefix search s"

text \<open>Decimal digits of a natural number, most significant first.\<close>

definition digit_char :: "nat \<Rightarrow> char" where
  "digit_char d = char_of (48 + d)"

function decimal :: "nat \<Rightarrow> string" where
  "decimal n = (if n < 10 then [digit_char n] else decimal (n div 10) @ [digit_char (n mod 10)])"
  by pat_completeness auto
termination
  by (relation "measure id") auto

declare decimal.simps [simp del]

text \<open>
  \<^verbatim>\<open>`${(file.size / 1024).toFixed(2)} KB`\<close>.
  \<open>file.size\<close> is a byte count, an integer below \<open>2^53\<close>, so the division by \<open>1024\<close> is exact
  in double precision. \<open>toFixed(2)\<close> takes the integer \<open>n\<close> with \<open>n / 100\<close> nearest to that
  quotient, the larger one on a tie, and prints \<open>n\<close> with a point before its last two
  digits.
\<close>

definition formatSize :: "nat \<Rightarrow> string" where
  "formatSize sz =
     (let n = (sz * 100 + 512) div 1024
      in decimal (n div 100) @ ''.'' @ [digit_char (n mod 100 div 10), digit_char (n mod 10)]
         @ '' KB'')"

subsection \<open>Data\<close>

text \<open>The three properties of a browser \<open>File\<close> that the component reads.\<close>

record File =
  file_name :: string
  file_type :: string
  file_size :: nat

text \<open>\<^verbatim>\<open>slideCount: number | "Unknown" | null\<close>\<close>

datatype slide_count = Count nat | Unknown | NoCount

text \<open>\<^verbatim>\<open>interface FileInfo { name; type; size; slideCount }\<close>\<close>

record FileInfo =
  info_name :: string
  info_type :: string
  info_size :: string
  slideCount :: slide_count

text \<open>
  A parsed JSON value, as \<open>response.json()\<close> resolves to. \<open>JNum\<close> carries a finite number;
  an object carries its own properties, each key once.
\<close>

datatype json =
    JNull
  | JBool bool
  | JNum rat
  | JStr string
  | JArr "json list"
  | JObj "(string \<times> json) list"

text \<open>A thrown \<open>Error\<close> object, with its \<open>message\<close>.\<close>

datatype js_error = Error (message: string)

text \<open>
  The cells of the component (\<open>useState\<close>, lines 26 to 35). \<open>None\<close> is \<open>null\<close>.
  The two result cells are declared \<open>string | null\<close> and \<open>number | null\<close>, and are
  assigned from the untyped \<open>result\<close> of \<open>response.json()\<close>: at run time they hold
  whatever JSON value the response carried.
\<close>

record form_state =
  selectedReport :: "string option"
  fileInfo :: "FileInfo option"
  uploadedFile :: "File option"
  selectedOptions :: "string list"
  error :: string
  correctedFileUrl :: "json option"
  amendedSlidesCount :: "json option"
  isProcessing :: bool

definition initial :: form_state where
  "initial = \<lparr> selectedReport = None, fileInfo = None, uploadedFile = None,
               selectedOptions = [], error = [], correctedFileUrl = None,
               amendedSlidesCount = None, isProcessing = False \<rparr>"

text \<open>
  The body of the POST request: the three entries appended to the \<open>FormData\<close>.
  \<open>req_options\<close> is the text \<open>JSON.stringify(selectedOptions)\<close>.
\<close>

record request =
  req_file :: File
  req_report :: string
  req_options :: string

text \<open>What a handler does: a setter call, an \<open>alert\<close>, or the \<open>fetch\<close> of the endpoint.\<close>

datatype action =
    SetSelectedReport "string option"
  | SetFileInfo "FileInfo option"
  | SetUploadedFile "File option"
  | SetSelectedOptions "string list"
  | SetError string
  | SetCorrectedFileUrl "json option"
  | SetAmendedSlidesCount "json option"
  | SetIsProcessing bool
  | Alert string
  | Fetch request

fun apply_action :: "form_state \<Rightarrow> action \<Rightarrow> form_state" where
  "apply_action s (SetSelectedReport v) = s\<lparr>selectedReport := v\<rparr>"
| "apply_action s (SetFileInfo v) = s\<lparr>fileInfo := v\<rparr>"
| "apply_action s (SetUploadedFile v) = s\<lparr>uploadedFile := v\<rparr>"
| "apply_action s (SetSelectedOptions v) = s\<lparr>selectedOptions := v\<rparr>"
| "apply_action s (SetError v) = s\<lparr>error := v\<rparr>"
| "apply_action s (SetCorrectedFileUrl v) = s\<lparr>correctedFileUrl := v\<rparr>"
| "apply_action s (SetAmendedSlidesCount v) = s\<lparr>amendedSlidesCount := v\<rparr>"
| "apply_action s (SetIsProcessing v) = s\<lparr>isProcessing := v\<rparr>"
| "apply_action s (Alert msg) = s"
| "apply_action s (Fetch req) = s"

definition exec :: "form_state \<Rightarrow> action list \<Rightarrow> form_state" where
  "exec s acts = foldl apply_action s acts"

fun is_fetch :: "action \<Rightarrow> bool" where
  "is_fetch (Fetch req) = True"
| "is_fetch a = False"

fun is_set_file_info :: "action \<Rightarrow> bool" where
  "is_set_file_info (SetFileInfo v) = True"
| "is_set_file_info a = False"

subsection \<open>File intake: \<open>handleFileChange\<close> (lines 37 to 84)\<close>

text \<open>\<^verbatim>\<open>e.target.files?.[0]\<close>: \<open>files\<close> is \<open>null\<close> or a list, possibly empty.\<close>

definition first_file :: "File list option \<Rightarrow> File option" where
  "first_file files = (case files of None \<Rightarrow> None | Some [] \<Rightarrow> None | Some (f # rest) \<Rightarrow> Some f)"

text \<open>
  Lines 38 to 63, up to \<^verbatim>\<open>await file.arrayBuffer()\<close>. The second component is the file whose
  archive is awaited, when the handler reaches line 66.
\<close>

definition handleFileChange_sync :: "File list option \<Rightarrow> action list \<times> File option" where
  "handleFileChange_sync files =
     (case first_file files of
        None \<Rightarrow> ([], None)
      | Some f \<Rightarrow>
          let cleared = [SetUploadedFile (Some f), SetCorrectedFileUrl None,
                         SetAmendedSlidesCount None];
              isPptx = endsWith (toLowerCase (file_name f)) ''.pptx'';
              isPpt = endsWith (toLowerCase (file_name f)) ''.ppt''
          in if \<not> isPpt \<and> \<not> isPptx then
               (cleared @ [SetError ''Only .ppt or .pptx files are allowed.'', SetFileInfo None],
                None)
             else if isPpt then
               (cleared @
                  [SetFileInfo (Some \<lparr> info_name = file_name f, info_type = ''ppt'',
                                       info_size = formatSize (file_size f),
                                       slideCount = Unknown \<rparr>),
                   SetError ''''],
                None)
             else (cleared, Some f))"

text \<open>
  Lines 65 to 83. \<open>loaded\<close> is the list \<open>Object.keys(zip.files)\<close> of the archive that
  \<open>JSZip.loadAsync\<close> built from the bytes of the file, or \<open>None\<close> when \<open>file.arrayBuffer()\<close>
  or \<open>JSZip.loadAsync\<close> rejected (the \<open>catch\<close> of line 80).
\<close>

definition handleFileChange_resume :: "File \<Rightarrow> string list option \<Rightarrow> action list" where
  "handleFileChange_resume f loaded =
     (case loaded of
        None \<Rightarrow> [SetError ''Failed to read pptx file.'', SetFileInfo None]
      | Some keys \<Rightarrow>
          let slideFiles =
                filter (\<lambda>filename. startsWith filename ''ppt/slides/slide''
                                    \<and> endsWith filename ''.xml'') keys
          in [SetFileInfo (Some \<lparr> info_name = file_name f, info_type = file_type f,
                                    info_size = formatSize (file_size f),
                                    slideCount = Count (length slideFiles) \<rparr>),
              SetError ''''])"

text \<open>The whole handler, with \<open>readArchive\<close> answering for the two awaited calls.\<close>

definition handleFileChange ::
  "(File \<Rightarrow> string list option) \<Rightarrow> File list option \<Rightarrow> action list" where
  "handleFileChange readArchive files =
     (case handleFileChange_sync files of
        (acts, None) \<Rightarrow> acts
      | (acts, Some f) \<Rightarrow> acts @ handleFileChange_resume f (readArchive f))"

subsection \<open>Submission: \<open>handleStart\<close> (lines 86 to 158)\<close>

text \<open>
  \<open>JSON.stringify\<close> of an array of strings: each string in double quotes, with the quote,
  the backslash and the control characters below \<open>0x20\<close> escaped, the elements separated
  by commas, the whole in square brackets.
\<close>

definition hex_char :: "nat \<Rightarrow> char" where
  "hex_char d = (if d < 10 then char_of (48 + d) else char_of (87 + d))"

definition quote_char :: "char \<Rightarrow> string" where
  "quote_char c =
     (let n = (of_char c :: nat) in
      if n = 8 then [CHR 0x5C, CHR ''b'']
      else if n = 9 then [CHR 0x5C, CHR ''t'']
      else if n = 10 then [CHR 0x5C, CHR ''n'']
      else if n = 12 then [CHR 0x5C, CHR ''f'']
      else if n = 13 then [CHR 0x5C, CHR ''r'']
      else if n = 34 then [CHR 0x5C, CHR 0x22]
      else if n = 92 then [CHR 0x5C, CHR 0x5C]
      else if n < 32 then [CHR 0x5C, CHR ''u'', CHR ''0'', CHR ''0'', hex_char (n div 16),
                           hex_char (n mod 16)]
      else [c])"

definition quote_string :: "string \<Rightarrow> string" where
  "quote_string s = [CHR 0x22] @ concat (map quote_char s) @ [CHR 0x22]"

fun join_comma :: "string list \<Rightarrow> string" where
  "join_comma [] = []"
| "join_comma [x] = x"
| "join_comma (x # y # rest) = x @ '','' @ join_comma (y # rest)"

definition JSON_stringify :: "string list \<Rightarrow> string" where
  "JSON_stringify xs = ''['' @ join_comma (map quote_string xs) @ '']''"

text \<open>
  Lines 87 to 118, up to \<^verbatim>\<open>await fetch(...)\<close>. The second component is the request in
  flight, when the handler reaches line 115. \<open>!selectedReport\<close> holds of \<open>null\<close> and of the
  empty string (the value of the placeholder \<open>Select Report\<close>).
\<close>

definition handleStart_sync :: "form_state \<Rightarrow> action list \<times> request option" where
  "handleStart_sync s =
     (case selectedReport s of
        None \<Rightarrow> ([SetError ''Please select a report.''], None)
      | Some report \<Rightarrow>
          if report = [] then ([SetError ''Please select a report.''], None)
          else
            (case uploadedFile s of
               None \<Rightarrow> ([SetError ''Please upload a PowerPoint file.''], None)
             | Some f \<Rightarrow>
                 if fileInfo s = None then ([SetError ''Please upload a PowerPoint file.''], None)
                 else if length (selectedOptions s) = 0 then
                   ([SetError ''Please select at least one option.''], None)
                 else
                   let cleared = [SetError '''', SetCorrectedFileUrl None,
                                  SetAmendedSlidesCount None]
                   in if ''language'' \<in> set (selectedOptions s) then
                        let req = \<lparr> req_file = f, req_report = report,
                                      req_options = JSON_stringify (selectedOptions s) \<rparr>
                        in (cleared @ [SetIsProcessing True, Fetch req], Some req)
                      else (cleared @ [Alert ''Process started successfully!''], None)))"

text \<open>
  How the awaited calls settle: \<open>fetch\<close> rejects, or resolves to a response with its \<open>ok\<close>
  flag and with what \<open>response.json()\<close> settles to.
\<close>

datatype json_outcome = JsonRejects js_error | JsonResolves json

datatype fetch_outcome = FetchRejects js_error | Response bool json_outcome

text \<open>JavaScript truthiness of a JSON value, and of a property that may be \<open>undefined\<close>.\<close>

fun truthy :: "json \<Rightarrow> bool" where
  "truthy JNull = False"
| "truthy (JBool b) = b"
| "truthy (JNum n) = (n \<noteq> 0)"
| "truthy (JStr str) = (str \<noteq> [])"
| "truthy (JArr xs) = True"
| "truthy (JObj kvs) = True"

definition truthy_opt :: "json option \<Rightarrow> bool" where
  "truthy_opt v = (case v of None \<Rightarrow> False | Some j \<Rightarrow> truthy j)"

text \<open>
  \<open>result.key\<close> for a \<open>result\<close> other than \<open>null\<close>; \<open>None\<close> is \<open>undefined\<close>. None of the
  three keys read is a property of a string, number, boolean or array.
\<close>

fun member :: "json \<Rightarrow> string \<Rightarrow> json option" where
  "member (JObj kvs) key = map_of kvs key"
| "member j key = None"

text \<open>\<open>v || 0\<close>\<close>

definition or_zero :: "json option \<Rightarrow> json" where
  "or_zero v = (case v of None \<Rightarrow> JNum 0 | Some j \<Rightarrow> if truthy j then j else JNum 0)"

text \<open>
  The \<open>TypeError\<close> of \<open>result.fileUrl\<close> when \<open>result\<close> is \<open>null\<close>; the wording is the
  engine's (here V8's).
\<close>

definition null_read_error :: js_error where
  "null_read_error = Error ''Cannot read properties of null (reading 'fileUrl')''"

text \<open>
  The \<open>try\<close> block from the settled \<open>fetch\<close> on (lines 115 to 149): the exception it
  throws, or the actions it performs. Every \<open>throw\<close> comes before the first setter.
\<close>

definition try_block :: "fetch_outcome \<Rightarrow> js_error + action list" where
  "try_block outcome =
     (case outcome of
        FetchRejects err \<Rightarrow> Inl err
      | Response ok body \<Rightarrow>
          if \<not> ok then Inl (Error ''Failed to process the PPT file.'')
          else
            (case body of
               JsonRejects err \<Rightarrow> Inl err
             | JsonResolves result \<Rightarrow>
                 if result = JNull then Inl null_read_error
                 else
                   let url_acts =
                         (if truthy_opt (member result ''fileUrl'') then
                            [SetCorrectedFileUrl (member result ''fileUrl'')]
                          else if truthy_opt (member result ''fileBlob'') then []
                          else [SetCorrectedFileUrl None])
                   in Inr (url_acts @
                           [SetAmendedSlidesCount
                              (Some (or_zero (member result ''amendedSlidesCount''))),
                            Alert ''Process completed successfully!''])))"

text \<open>Lines 115 to 154: the \<open>try\<close> block, its \<open>catch\<close> and its \<open>finally\<close>.\<close>

definition handleStart_resume :: "fetch_outcome \<Rightarrow> action list" where
  "handleStart_resume outcome =
     (case try_block outcome of
        Inr acts \<Rightarrow> acts
      | Inl err \<Rightarrow>
          [SetError (if message err \<noteq> [] then message err else ''Error processing the file.'')])
     @ [SetIsProcessing False]"

text \<open>The whole handler, with \<open>fetch\<close> answering for the endpoint.\<close>

definition handleStart :: "(request \<Rightarrow> fetch_outcome) \<Rightarrow> form_state \<Rightarrow> action list" where
  "handleStart fetch s =
     (case handleStart_sync s of
        (acts, None) \<Rightarrow> acts
      | (acts, Some req) \<Rightarrow> acts @ handleStart_resume (fetch req))"

subsection \<open>Rendering (lines 160 to 277)\<close>

text \<open>
  What the returned JSX shows of the state: the attributes of the four controls, and the
  three conditional blocks below them. The \<open>select\<close> of the report (lines 168 to 172) has
  no \<open>disabled\<close> attribute.
\<close>

record view =
  report_value :: string
  report_disabled :: bool
  file_disabled :: bool
  info_panel :: "FileInfo option"
  options_disabled :: bool
  start_disabled :: bool
  start_label :: string
  error_text :: "string option"
  download_link :: "(json \<times> string) option"
  amended_text :: "json option"

text \<open>
  A value that React accepts as a child of an element: a number or a string is shown as
  text, a boolean shows nothing, an array is accepted when each of its elements is. A
  plain object is refused (\<open>Objects are not valid as a React child\<close>): rendering throws.
\<close>

fun renderable :: "json \<Rightarrow> bool" where
  "renderable JNull = True"
| "renderable (JBool b) = True"
| "renderable (JNum n) = True"
| "renderable (JStr str) = True"
| "renderable (JArr xs) = list_all renderable xs"
| "renderable (JObj kvs) = False"

text \<open>
  The render of a state, or \<open>None\<close> when it throws. The only child that is not a string or
  a number by construction is \<open>{amendedSlidesCount}\<close> of line 273, which holds what line 148
  stored. The component has no error boundary: a render that throws takes the form off
  the page.
\<close>

definition render :: "form_state \<Rightarrow> view option" where
  "render s =
     (if (case amendedSlidesCount s of None \<Rightarrow> True | Some c \<Rightarrow> renderable c) then
        Some
          \<lparr> report_value = (case selectedReport s of None \<Rightarrow> [] | Some r \<Rightarrow> r),
            report_disabled = False,
            file_disabled = isProcessing s,
            info_panel = fileInfo s,
            options_disabled = isProcessing s,
            start_disabled = isProcessing s,
            start_label = (if isProcessing s then ''Processing...'' else ''Start''),
            error_text = (if error s \<noteq> [] then Some (error s) else None),
            download_link =
              (case correctedFileUrl s of
                 None \<Rightarrow> None
               | Some url \<Rightarrow>
                   if truthy url then
                     Some (url, ''corrected_'' @ (case fileInfo s of None \<Rightarrow> ''undefined''
                                                                | Some info \<Rightarrow> info_name info))
                   else None),
            amended_text = amendedSlidesCount s \<rparr>
      else None)"


subsection \<open>User events\<close>

text \<open>
  The four events the JSX binds a handler to. A disabled control fires no event, so an
  event reaches its handler only when the control it comes from is enabled in the
  current render, and there is no control when the render threw.
\<close>

datatype ui_event =
    ReportChange string
  | FileChange "File list option"
  | OptionsChange "string list"
  | StartClick

fun enabled :: "view \<Rightarrow> ui_event \<Rightarrow> bool" where
  "enabled v (ReportChange r) = (\<not> report_disabled v)"
| "enabled v (FileChange files) = (\<not> file_disabled v)"
| "enabled v (OptionsChange opts) = (\<not> options_disabled v)"
| "enabled v StartClick = (\<not> start_disabled v)"

text \<open>
  The handler of each event, run to completion: line 171, line 190, line 229, line 239.
\<close>

fun handler :: "(File \<Rightarrow> string list option) \<Rightarrow> (request \<Rightarrow> fetch_outcome) \<Rightarrow>
                form_state \<Rightarrow> ui_event \<Rightarrow> action list" where
  "handler readArchive fetch s (ReportChange r) = [SetSelectedReport (Some r)]"
| "handler readArchive fetch s (FileChange files) = handleFileChange readArchive files"
| "handler readArchive fetch s (OptionsChange opts) = [SetSelectedOptions opts]"
| "handler readArchive fetch s StartClick = handleStart fetch s"

text \<open>An event is delivered when the form is on the page and the control is enabled.\<close>

definition delivered :: "view option \<Rightarrow> ui_event \<Rightarrow> bool" where
  "delivered shown ev = (case shown of None \<Rightarrow> False | Some v \<Rightarrow> enabled v ev)"

definition dispatch :: "(File \<Rightarrow> string list option) \<Rightarrow> (request \<Rightarrow> fetch_outcome) \<Rightarrow>
                        form_state \<Rightarrow> ui_event \<Rightarrow> form_state" where
  "dispatch readArchive fetch s ev =
     (if delivered (render s) ev then exec s (handler readArchive fetch s ev) else s)"

definition run :: "(File \<Rightarrow> string list option) \<Rightarrow> (request \<Rightarrow> fetch_outcome) \<Rightarrow>
                   ui_event list \<Rightarrow> form_state" where
  "run readArchive fetch evs = foldl (dispatch readArchive fetch) initial evs"

subsection \<open>Intake outcome of a file\<close>

text \<open>
  A file passes intake when line 55 or line 73 stores a \<open>FileInfo\<close> for it: its name ends
  in \<open>.ppt\<close>, or ends in \<open>.pptx\<close> and its archive could be read (any letter case).
\<close>

definition intake_passed :: "(File \<Rightarrow> string list option) \<Rightarrow> File \<Rightarrow> bool" where
  "intake_passed readArchive f =
     (endsWith (toLowerCase (file_name f)) ''.ppt''
      \<or> (endsWith (toLowerCase (file_name f)) ''.pptx'' \<and> readArchive f \<noteq> None))"

text \<open>
  The metadata on display belongs to the uploaded file: there is a \<open>FileInfo\<close> exactly
  when the uploaded file passed intake, and it carries that file's name.
\<close>

definition file_info_matches :: "(File \<Rightarrow> string list option) \<Rightarrow> form_state \<Rightarrow> bool" where
  "file_info_matches readArchive s =
     (case uploadedFile s of
        None \<Rightarrow> fileInfo s = None
      | Some f \<Rightarrow>
          (case fileInfo s of
             None \<Rightarrow> \<not> intake_passed readArchive f
           | Some info \<Rightarrow> intake_passed readArchive f \<and> info_name info = file_name f))"

subsection \<open>Concrete inputs\<close>

text \<open>
  A presentation named in upper case, the entry names of an archive with two slides
  among other parts, and a file with the modern extension whose bytes are no archive.
\<close>

definition deck :: File where
  "deck = \<lparr> file_name = ''Deck.PPTX'', file_type = ''application/x-pptx'', file_size = 2048 \<rparr>"

definition deck_keys :: "string list" where
  "deck_keys = [''[Content_Types].xml'', ''ppt/slides/slide1.xml'', ''ppt/slides/slide2.xml'',
                ''ppt/slides/_rels/slide1.xml.rels'', ''ppt/slideLayouts/slideLayout1.xml'']"

definition deck_info :: FileInfo where
  "deck_info = \<lparr> info_name = ''Deck.PPTX'', info_type = ''application/x-pptx'',
                 info_size = ''2.00 KB'', slideCount = Count 2 \<rparr>"

definition broken :: File where
  "broken = \<lparr> file_name = ''broken.pptx'', file_type = ''application/x-pptx'', file_size = 10 \<rparr>"

definition memo :: File where
  "memo = \<lparr> file_name = ''notes.txt'', file_type = ''text/plain'', file_size = 10 \<rparr>"

definition readDeck :: "File \<Rightarrow> string list option" where
  "readDeck f = Some deck_keys"

definition unreadable :: "File \<Rightarrow> string list option" where
  "unreadable f = None"

text \<open>
  A form ready to be submitted with the \<open>language\<close> option, still showing the result of
  an earlier submission and the message of a rejected one.
\<close>

definition ready :: form_state where
  "ready = \<lparr> selectedReport = Some ''Report1'', fileInfo = Some deck_info,
             uploadedFile = Some deck, selectedOptions = [''format'', ''language''],
             error = ''Please select at least one option.'',
             correctedFileUrl = Some (JStr ''https://x/old.pptx''),
             amendedSlidesCount = Some (JNum 7), isProcessing = False \<rparr>"

text \<open>The state of that form between \<open>await fetch\<close> and the settling of its promise.\<close>

definition in_flight :: form_state where
  "in_flight = exec ready (fst (handleStart_sync ready))"

text \<open>Answers of the endpoint.\<close>

definition served :: "request \<Rightarrow> fetch_outcome" where
  "served req = Response True (JsonResolves (JObj [(''fileUrl'', JStr ''https://x/y.pptx''),
                                                  (''amendedSlidesCount'', JNum 3)]))"











definition refused :: "request \<Rightarrow> fetch_outcome" where
  "refused req = Response False (JsonRejects (Error ''Unexpected end of JSON input''))"





section \<open>Properties\<close>

subsection \<open>Running a list of actions\<close>

lemma exec_Nil [simp]: "exec s [] = s"
  by (simp add: exec_def)

lemma exec_Cons [simp]: "exec s (a # acts) = exec (apply_action s a) acts"
  by (simp add: exec_def)

lemma exec_append [simp]: "exec s (xs @ ys) = exec (exec s xs) ys"
  by (simp add: exec_def)

lemma run_snoc:
  "run readArchive fetch (evs @ [ev])
     = dispatch readArchive fetch (run readArchive fetch evs) ev"
  by (simp add: run_def)

subsection \<open>The two extensions\<close>

text \<open>A name cannot end in both: the last character differs.\<close>

lemma pptx_not_ppt: "endsWith s ''.pptx'' \<Longrightarrow> \<not> endsWith s ''.ppt''"
proof
  assume x: "endsWith s ''.pptx''" and t: "endsWith s ''.ppt''"
  from x obtain a where a: "s = a @ ''.pptx''"
    by (auto simp: endsWith_def suffix_def)
  from t obtain b where b: "s = b @ ''.ppt''"
    by (auto simp: endsWith_def suffix_def)
  from a have "last s = CHR ''x''" by simp
  moreover from b have "last s = CHR ''t''" by simp
  ultimately show False by simp
qed

lemma handleFileChange_pptx:
  assumes "first_file files = Some f"
    and "endsWith (toLowerCase (file_name f)) ''.pptx''"
  shows "handleFileChange readArchive files =
           [SetUploadedFile (Some f), SetCorrectedFileUrl None, SetAmendedSlidesCount None]
           @ handleFileChange_resume f (readArchive f)"
  using assms pptx_not_ppt [OF assms(2)]
  by (simp add: handleFileChange_def handleFileChange_sync_def)

subsection \<open>The concrete inputs, evaluated\<close>

lemma deck_is_pptx: "endsWith (toLowerCase (file_name deck)) ''.pptx''"
  by code_simp

lemma broken_is_pptx: "endsWith (toLowerCase (file_name broken)) ''.pptx''"
  by code_simp

lemma memo_is_neither:
  "\<not> endsWith (toLowerCase (file_name memo)) ''.ppt''"
  "\<not> endsWith (toLowerCase (file_name memo)) ''.pptx''"
  by code_simp+

lemma deck_keys_distinct: "distinct deck_keys"
  by (simp add: deck_keys_def)

lemma deck_slides:
  "filter (\<lambda>k. prefix ''ppt/slides/slide'' k \<and> suffix ''.xml'' k) deck_keys
     = [''ppt/slides/slide1.xml'', ''ppt/slides/slide2.xml'']"
  by (simp add: deck_keys_def suffix_to_prefix)



lemma first_file_deck: "first_file (Some [deck]) = Some deck"
  by (simp add: first_file_def)

lemma first_file_broken: "first_file (Some [broken]) = Some broken"
  by (simp add: first_file_def)



lemma ready_accepted:
  "selectedReport ready = Some ''Report1''" "''Report1'' \<noteq> []" "uploadedFile ready = Some deck"
  "fileInfo ready = Some deck_info" "''language'' \<in> set (selectedOptions ready)"
  by (simp_all add: ready_def)

lemma in_flight_eq:
  "in_flight = ready \<lparr> error := [], correctedFileUrl := None, amendedSlidesCount := None,
                        isProcessing := True \<rparr>"
  by (simp add: in_flight_def handleStart_sync_def ready_def Let_def)



subsection \<open>File intake\<close>

text \<open>
  Claim C1. When the selected file has a name ending (in any letter case) in \<open>.pptx\<close> and
  its bytes open as an archive with the entry names \<open>keys\<close>, intake stores a \<open>FileInfo\<close>
  whose \<open>slideCount\<close> is the number of names in \<open>keys\<close> that start with
  \<open>ppt/slides/slide\<close> and end with \<open>.xml\<close>. The names of an archive object are distinct, and
  then that number is the cardinality of the set of matching names: an archive with
  exactly \<open>N\<close> matching entries is reported with \<open>N\<close> slides.
\<close>

theorem C1_slide_count:
  assumes "first_file files = Some f"
    and "endsWith (toLowerCase (file_name f)) ''.pptx''"
    and "readArchive f = Some keys"
  shows "fileInfo (exec s (handleFileChange readArchive files)) =
           Some \<lparr> info_name = file_name f, info_type = file_type f,
                  info_size = formatSize (file_size f),
                  slideCount =
                    Count (length (filter (\<lambda>k. prefix ''ppt/slides/slide'' k
                                               \<and> suffix ''.xml'' k) keys)) \<rparr>
         \<and> (distinct keys \<longrightarrow>
              length (filter (\<lambda>k. prefix ''ppt/slides/slide'' k \<and> suffix ''.xml'' k) keys) =
              card {k \<in> set keys. prefix ''ppt/slides/slide'' k \<and> suffix ''.xml'' k})"
proof
  show "fileInfo (exec s (handleFileChange readArchive files)) =
           Some \<lparr> info_name = file_name f, info_type = file_type f,
                  info_size = formatSize (file_size f),
                  slideCount =
                    Count (length (filter (\<lambda>k. prefix ''ppt/slides/slide'' k
                                               \<and> suffix ''.xml'' k) keys)) \<rparr>"
    using assms(3)
    by (simp add: handleFileChange_pptx [OF assms(1,2)] handleFileChange_resume_def
        startsWith_def endsWith_def)
next
  show "distinct keys \<longrightarrow>
          length (filter (\<lambda>k. prefix ''ppt/slides/slide'' k \<and> suffix ''.xml'' k) keys) =
          card {k \<in> set keys. prefix ''ppt/slides/slide'' k \<and> suffix ''.xml'' k}"
  proof
    assume d: "distinct keys"
    let ?slides = "filter (\<lambda>k. prefix ''ppt/slides/slide'' k \<and> suffix ''.xml'' k) keys"
    from d have "card (set ?slides) = length ?slides"
      by (intro distinct_card distinct_filter)
    moreover have "set ?slides
            = {k \<in> set keys. prefix ''ppt/slides/slide'' k \<and> suffix ''.xml'' k}"
      by auto
    ultimately show "length ?slides =
          card {k \<in> set keys. prefix ''ppt/slides/slide'' k \<and> suffix ''.xml'' k}"
      by simp
  qed
qed

theorem C1_slide_count_witness:
  "first_file (Some [deck]) = Some deck
   \<and> endsWith (toLowerCase (file_name deck)) ''.pptx''
   \<and> distinct deck_keys
   \<and> slideCount (the (fileInfo (exec initial (handleFileChange readDeck (Some [deck])))))
       = Count 2
   \<and> card {k \<in> set deck_keys. prefix ''ppt/slides/slide'' k \<and> suffix ''.xml'' k} = 2"
proof -
  have h3: "readDeck deck = Some deck_keys"
    by (simp add: readDeck_def)
  note inst = C1_slide_count [where readArchive = readDeck and s = initial,
      OF first_file_deck deck_is_pptx h3]
  show ?thesis
    using inst first_file_deck deck_is_pptx deck_keys_distinct by (simp add: deck_slides)
qed

text \<open>
  Claim C10. A file-change event that carries no file (\<open>files\<close> is \<open>null\<close> or empty) makes
  the handler return at line 39: it performs no action, and every cell of the state is
  as before.
\<close>

theorem C10_no_file:
  assumes "first_file files = None"
  shows "handleFileChange readArchive files = []
         \<and> exec s (handleFileChange readArchive files) = s"
  using assms by (simp add: handleFileChange_def handleFileChange_sync_def)

theorem C10_no_file_witness:
  "first_file None = None \<and> first_file (Some []) = None
   \<and> exec ready (handleFileChange readDeck None) = ready
   \<and> exec ready (handleFileChange readDeck (Some [])) = ready"
proof -
  have h1: "first_file None = None" and h2: "first_file (Some []) = None"
    by (simp_all add: first_file_def)
  from C10_no_file [OF h1, of readDeck ready] C10_no_file [OF h2, of readDeck ready] h1 h2
  show ?thesis by simp
qed

text \<open>
  Claim C8. A file-change event that carries a file starts with three setter calls, the
  second and third of which clear the downloadable reference and the amended-slide
  count; no \<open>FileInfo\<close> is stored before them. The two cells are clear when the handler
  suspends or returns at the end of its synchronous part, and clear when the whole
  handler has finished, whatever the name of the file and whatever the archive reader
  answers.
\<close>

theorem C8_results_cleared:
  assumes "first_file files = Some f"
  shows "take 3 (handleFileChange readArchive files)
           = [SetUploadedFile (Some f), SetCorrectedFileUrl None, SetAmendedSlidesCount None]
         \<and> \<not> list_ex is_set_file_info (take 3 (handleFileChange readArchive files))
         \<and> take 3 (fst (handleFileChange_sync files))
           = [SetUploadedFile (Some f), SetCorrectedFileUrl None, SetAmendedSlidesCount None]
         \<and> correctedFileUrl (exec s (fst (handleFileChange_sync files))) = None
         \<and> amendedSlidesCount (exec s (fst (handleFileChange_sync files))) = None
         \<and> correctedFileUrl (exec s (handleFileChange readArchive files)) = None
         \<and> amendedSlidesCount (exec s (handleFileChange readArchive files)) = None"
  using assms
  by (simp add: handleFileChange_def handleFileChange_sync_def handleFileChange_resume_def
      Let_def split: option.splits)

theorem C8_results_cleared_witness:
  "correctedFileUrl ready = Some (JStr ''https://x/old.pptx'')
   \<and> amendedSlidesCount ready = Some (JNum 7)
   \<and> correctedFileUrl (exec ready (handleFileChange readDeck (Some [deck]))) = None
   \<and> amendedSlidesCount (exec ready (handleFileChange readDeck (Some [deck]))) = None
   \<and> correctedFileUrl (exec ready (handleFileChange unreadable (Some [broken]))) = None
   \<and> amendedSlidesCount (exec ready (handleFileChange unreadable (Some [broken]))) = None"
proof -
  from C8_results_cleared [OF first_file_deck, of readDeck ready]
       C8_results_cleared [OF first_file_broken, of unreadable ready]
  show ?thesis by (simp add: ready_def)
qed

subsection \<open>File metadata and the uploaded file\<close>

lemma handleStart_resume_frame:
  "fileInfo (exec s (handleStart_resume outcome)) = fileInfo s
   \<and> uploadedFile (exec s (handleStart_resume outcome)) = uploadedFile s"
  by (simp add: handleStart_resume_def try_block_def Let_def
      split: fetch_outcome.splits json_outcome.splits)

lemma handleStart_frame:
  "fileInfo (exec s (handleStart fetch s)) = fileInfo s
   \<and> uploadedFile (exec s (handleStart fetch s)) = uploadedFile s"
  by (simp add: handleStart_def handleStart_sync_def handleStart_resume_frame Let_def
      split: option.splits)

lemma handleFileChange_intake:
  assumes "first_file files = Some f"
  shows "file_info_matches readArchive (exec s (handleFileChange readArchive files))"
proof (cases "endsWith (toLowerCase (file_name f)) ''.pptx''")
  case True
  then show ?thesis
    using pptx_not_ppt [OF True]
    by (simp add: handleFileChange_pptx [OF assms True] handleFileChange_resume_def
        file_info_matches_def intake_passed_def Let_def split: option.splits)
next
  case False
  then show ?thesis
    using assms
    by (simp add: handleFileChange_def handleFileChange_sync_def file_info_matches_def
        intake_passed_def Let_def)
qed

lemma file_info_matches_frame:
  assumes "fileInfo s' = fileInfo s" and "uploadedFile s' = uploadedFile s"
  shows "file_info_matches readArchive s' = file_info_matches readArchive s"
  using assms by (simp add: file_info_matches_def cong: option.case_cong)

lemma dispatch_keeps_file_info:
  assumes "file_info_matches readArchive s"
  shows "file_info_matches readArchive (dispatch readArchive fetch s ev)"
proof (cases "delivered (render s) ev")
  case False
  with assms show ?thesis by (simp add: dispatch_def)
next
  case True
  show ?thesis
  proof (cases ev)
    case (ReportChange r)
    have "file_info_matches readArchive (exec s [SetSelectedReport (Some r)])
            = file_info_matches readArchive s"
      by (rule file_info_matches_frame) simp_all
    with assms True ReportChange show ?thesis by (simp add: dispatch_def)
  next
    case (OptionsChange opts)
    have "file_info_matches readArchive (exec s [SetSelectedOptions opts])
            = file_info_matches readArchive s"
      by (rule file_info_matches_frame) simp_all
    with assms True OptionsChange show ?thesis by (simp add: dispatch_def)
  next
    case StartClick
    have "file_info_matches readArchive (exec s (handleStart fetch s))
            = file_info_matches readArchive s"
      by (rule file_info_matches_frame) (simp_all add: handleStart_frame)
    with assms True StartClick show ?thesis by (simp add: dispatch_def)
  next
    case (FileChange files)
    show ?thesis
    proof (cases "first_file files")
      case None
      with assms True FileChange show ?thesis
        by (simp add: dispatch_def handleFileChange_def handleFileChange_sync_def)
    next
      case (Some f)
      with True FileChange show ?thesis
        using handleFileChange_intake [OF Some, of readArchive s]
        by (simp add: dispatch_def)
    qed
  qed
qed

lemma run_file_info_matches: "file_info_matches readArchive (run readArchive fetch evs)"
proof (induction evs rule: rev_induct)
  case Nil
  show ?case by (simp add: run_def initial_def file_info_matches_def)
next
  case (snoc ev evs)
  from dispatch_keeps_file_info [OF snoc.IH] show ?case by (simp add: run_snoc)
qed


text \<open>
  Claim C6, as amended. After any sequence of events, each handled to completion before
  the next, \<open>FileInfo\<close> is present exactly when a file is uploaded that passed intake:
  its name ends in \<open>.ppt\<close>, or ends in \<open>.pptx\<close> and its archive could be read. The
  extension alone does not decide: line 82 clears \<open>FileInfo\<close> for a \<open>.pptx\<close> file whose
  archive cannot be read.
\<close>

theorem C6_file_info_iff_intake_passed:
  "(fileInfo (run readArchive fetch evs) \<noteq> None)
   = (\<exists>f. uploadedFile (run readArchive fetch evs) = Some f \<and> intake_passed readArchive f)"
  using run_file_info_matches [of readArchive fetch evs]
  by (auto simp: file_info_matches_def split: option.splits)

text \<open>
  The claim as first stated fails: after the selection of \<open>broken.pptx\<close>, whose bytes are
  no archive, the uploaded file has the modern extension and there is no \<open>FileInfo\<close>.
\<close>

theorem C6_counterexample:
  "uploadedFile (run unreadable served [FileChange (Some [broken])]) = Some broken
   \<and> endsWith (toLowerCase (file_name broken)) ''.pptx''
   \<and> fileInfo (run unreadable served [FileChange (Some [broken])]) = None"
  using broken_is_pptx
  by (simp add: run_def dispatch_def delivered_def render_def initial_def
      handleFileChange_pptx [OF first_file_broken broken_is_pptx] handleFileChange_resume_def
      unreadable_def)

text \<open>
  Handling to completion matters. The file input is enabled while an archive is being
  read, and a second selection made in the meantime is overwritten when the first
  read settles: \<open>notes.txt\<close> is the uploaded file, it did not pass intake, and the
  \<open>FileInfo\<close> of \<open>Deck.PPTX\<close> is on display.
\<close>

lemma stale_archive_read:
  "uploadedFile
     (exec (exec (exec initial (fst (handleFileChange_sync (Some [deck]))))
                 (handleFileChange readDeck (Some [memo])))
           (handleFileChange_resume deck (readDeck deck))) = Some memo
   \<and> fileInfo
     (exec (exec (exec initial (fst (handleFileChange_sync (Some [deck]))))
                 (handleFileChange readDeck (Some [memo])))
           (handleFileChange_resume deck (readDeck deck))) \<noteq> None
   \<and> \<not> intake_passed readDeck memo"
  using deck_is_pptx memo_is_neither pptx_not_ppt [OF deck_is_pptx]
  by (simp add: handleFileChange_def handleFileChange_sync_def first_file_def
      handleFileChange_resume_def readDeck_def intake_passed_def Let_def)

subsection \<open>Submission\<close>

text \<open>An accepted submission with the \<open>language\<close> option: the actions up to the \<open>fetch\<close>.\<close>

lemma handleStart_language:
  assumes "selectedReport s = Some r" and "r \<noteq> []" and "uploadedFile s = Some f"
    and "fileInfo s = Some info" and "''language'' \<in> set (selectedOptions s)"
  shows "handleStart fetch s =
           [SetError [], SetCorrectedFileUrl None, SetAmendedSlidesCount None,
            SetIsProcessing True,
            Fetch \<lparr> req_file = f, req_report = r,
                    req_options = JSON_stringify (selectedOptions s) \<rparr>]
           @ handleStart_resume
               (fetch \<lparr> req_file = f, req_report = r,
                        req_options = JSON_stringify (selectedOptions s) \<rparr>)"
proof -
  from assms(5) have "selectedOptions s \<noteq> []" by auto
  with assms show ?thesis
    by (simp add: handleStart_def handleStart_sync_def Let_def)
qed












text \<open>
  Claim C4. An accepted submission whose options do not include \<open>language\<close> clears the
  error and the two result cells and calls \<open>alert\<close> with the message that the process
  started; there is no \<open>fetch\<close> among its actions, and the downloadable reference and
  the amended-slide count are \<open>null\<close> afterwards.
\<close>

theorem C4_without_language:
  assumes "selectedReport s = Some r" and "r \<noteq> []" and "uploadedFile s = Some f"
    and "fileInfo s = Some info" and "selectedOptions s \<noteq> []"
    and "''language'' \<notin> set (selectedOptions s)"
  shows "handleStart fetch s =
           [SetError [], SetCorrectedFileUrl None, SetAmendedSlidesCount None,
            Alert ''Process started successfully!'']
         \<and> \<not> list_ex is_fetch (handleStart fetch s)
         \<and> correctedFileUrl (exec s (handleStart fetch s)) = None
         \<and> amendedSlidesCount (exec s (handleStart fetch s)) = None"
  using assms by (simp add: handleStart_def handleStart_sync_def Let_def)

theorem C4_without_language_witness:
  "handleStart served (ready\<lparr>selectedOptions := [''format'', ''narrative'']\<rparr>)
     = [SetError [], SetCorrectedFileUrl None, SetAmendedSlidesCount None,
        Alert ''Process started successfully!'']
   \<and> correctedFileUrl (exec (ready\<lparr>selectedOptions := [''format'', ''narrative'']\<rparr>)
        (handleStart served (ready\<lparr>selectedOptions := [''format'', ''narrative'']\<rparr>))) = None
   \<and> amendedSlidesCount (exec (ready\<lparr>selectedOptions := [''format'', ''narrative'']\<rparr>)
        (handleStart served (ready\<lparr>selectedOptions := [''format'', ''narrative'']\<rparr>))) = None"
proof -
  let ?s = "ready\<lparr>selectedOptions := [''format'', ''narrative'']\<rparr>"
  have h: "selectedReport ?s = Some ''Report1''" "''Report1'' \<noteq> []"
    "uploadedFile ?s = Some deck" "fileInfo ?s = Some deck_info"
    "selectedOptions ?s \<noteq> []" "''language'' \<notin> set (selectedOptions ?s)"
    by (simp_all add: ready_def)
  from C4_without_language [OF h, of served] show ?thesis by simp
qed

text \<open>
  Claim C5. An accepted submission with the \<open>language\<close> option whose response has a
  status outside the success range ends with the message of line 121 in the error
  cell, shown as the error text, and with the downloadable reference and the
  amended-slide count \<open>null\<close>: they were cleared before the request and no setter
  touches them afterwards.
\<close>

theorem C5_failed_status:
  assumes "selectedReport s = Some r" and "r \<noteq> []" and "uploadedFile s = Some f"
    and "fileInfo s = Some info" and "''language'' \<in> set (selectedOptions s)"
    and "fetch \<lparr> req_file = f, req_report = r,
                 req_options = JSON_stringify (selectedOptions s) \<rparr> = Response False body"
  shows "error (exec s (handleStart fetch s)) = ''Failed to process the PPT file.''
         \<and> map_option error_text (render (exec s (handleStart fetch s)))
             = Some (Some ''Failed to process the PPT file.'')
         \<and> correctedFileUrl (exec s (handleStart fetch s)) = None
         \<and> amendedSlidesCount (exec s (handleStart fetch s)) = None"
  using assms(6)
  by (simp add: handleStart_language [OF assms(1-5)] handleStart_resume_def try_block_def
      render_def)

theorem C5_failed_status_witness:
  "error (exec ready (handleStart refused ready)) = ''Failed to process the PPT file.''
   \<and> map_option error_text (render (exec ready (handleStart refused ready)))
       = Some (Some ''Failed to process the PPT file.'')
   \<and> correctedFileUrl (exec ready (handleStart refused ready)) = None
   \<and> amendedSlidesCount (exec ready (handleStart refused ready)) = None"
proof -
  have r: "refused \<lparr> req_file = deck, req_report = ''Report1'',
                      req_options = JSON_stringify (selectedOptions ready) \<rparr>
            = Response False (JsonRejects (Error ''Unexpected end of JSON input''))"
    by (simp add: refused_def)
  from C5_failed_status [where fetch = refused, OF ready_accepted r] show ?thesis by simp
qed







subsection \<open>Controls while a submission is in flight\<close>

text \<open>
  While the processing flag is on, the file input, the options selector and the start
  button are disabled: their events leave the state as it is.
\<close>

lemma processing_disables_file_options_start:
  assumes "isProcessing s"
  shows "dispatch readArchive fetch s (FileChange files) = s
         \<and> dispatch readArchive fetch s (OptionsChange opts) = s
         \<and> dispatch readArchive fetch s StartClick = s"
  using assms by (simp add: dispatch_def delivered_def render_def)

text \<open>
  Claim C7 does not hold of the report selector. In the state between the \<open>fetch\<close> and
  its answer the processing flag is on and the three other controls are disabled, but
  the \<open>select\<close> of the report has no \<open>disabled\<close> attribute: a change event reaches its
  handler, and the chosen report changes from \<open>Report1\<close> to \<open>Report2\<close> while the request
  is in flight.
\<close>

theorem C7_report_select_enabled_in_flight:
  "isProcessing in_flight
   \<and> map_option file_disabled (render in_flight) = Some True
   \<and> map_option options_disabled (render in_flight) = Some True
   \<and> map_option start_disabled (render in_flight) = Some True
   \<and> map_option report_disabled (render in_flight) = Some False
   \<and> delivered (render in_flight) (ReportChange ''Report2'')
   \<and> selectedReport in_flight = Some ''Report1''
   \<and> selectedReport (dispatch readDeck served in_flight (ReportChange ''Report2''))
       = Some ''Report2''"
  by (simp add: in_flight_eq dispatch_def delivered_def render_def ready_def)

end
